theory Spec2Isabelle
  imports Main "HOL-Library.Sublist" "HOL-Library.AList" "HOL-Library.Code_Target_Nat"
begin

section \<open>Python values\<close>

text \<open>
  A Python \<open>str\<close> is a sequence of Unicode code points; the reply parser matches on two
  emoji outside the 8-bit range, so the code points are natural numbers. \<open>U\<close> reads an
  ASCII literal of the source.
\<close>

type_synonym str = "nat list"

abbreviation U :: "string \<Rightarrow> str" where
  "U s \<equiv> map of_char s"

text \<open>
  The JSON-shaped values the session keeps: \<open>dict\<close> keeps insertion order. No arithmetic
  is done on a \<open>float\<close> anywhere in the source, so one is carried by its decimal text.
\<close>

datatype pyval =
    PNone
  | PBool bool
  | PInt int
  | PFloat str
  | PStr str
  | PList "pyval list"
  | PDict "(str \<times> pyval) list"

type_synonym pydict = "(str \<times> pyval) list"

definition dict_get :: "pydict \<Rightarrow> str \<Rightarrow> pyval" where
  \<comment> \<open>\<open>d.get(k)\<close>: \<open>None\<close> for a missing key\<close>
  "dict_get d k = (case map_of d k of None \<Rightarrow> PNone | Some v \<Rightarrow> v)"

definition dict_get_default :: "pydict \<Rightarrow> str \<Rightarrow> pyval \<Rightarrow> pyval" where
  \<comment> \<open>\<open>d.get(k, default)\<close>\<close>
  "dict_get_default d k dflt = (case map_of d k of None \<Rightarrow> dflt | Some v \<Rightarrow> v)"

definition dict_contains :: "pydict \<Rightarrow> str \<Rightarrow> bool" where
  \<comment> \<open>\<open>k in d\<close>\<close>
  "dict_contains d k = (map_of d k \<noteq> None)"

definition dict_setitem :: "pydict \<Rightarrow> str \<Rightarrow> pyval \<Rightarrow> pydict" where
  \<comment> \<open>\<open>d[k] = v\<close>: an existing key keeps its place, a new one goes last\<close>
  "dict_setitem d k v = AList.update k v d"

definition dict_delitem :: "pydict \<Rightarrow> str \<Rightarrow> pydict" where
  \<comment> \<open>\<open>del d[k]\<close>, only ever reached under a guard \<open>k in d\<close>\<close>
  "dict_delitem d k = AList.delete k d"

definition dict_update :: "pydict \<Rightarrow> pydict \<Rightarrow> pydict" where
  \<comment> \<open>\<open>d.update(other)\<close>\<close>
  "dict_update d other = fold (\<lambda>(k, v) acc. dict_setitem acc k v) other d"

section \<open>String operations of the source\<close>

definition isspace :: "nat \<Rightarrow> bool" where
  \<comment> \<open>the code points \<open>str.strip()\<close> removes\<close>
  "isspace c = (c \<in> {9, 10, 11, 12, 13, 28, 29, 30, 31, 32, 133, 160, 5760,
                     8192, 8193, 8194, 8195, 8196, 8197, 8198, 8199, 8200, 8201, 8202,
                     8232, 8233, 8239, 8287, 12288})"

definition lstrip :: "str \<Rightarrow> str" where
  "lstrip s = dropWhile isspace s"

definition rstrip :: "str \<Rightarrow> str" where
  "rstrip s = rev (dropWhile isspace (rev s))"

definition strip :: "str \<Rightarrow> str" where
  "strip s = rstrip (lstrip s)"

definition startswith :: "str \<Rightarrow> str \<Rightarrow> bool" where
  "startswith s p = prefix p s"

definition endswith :: "str \<Rightarrow> str \<Rightarrow> bool" where
  "endswith s p = suffix p s"

definition alnum :: "nat \<Rightarrow> bool" where
  \<comment> \<open>the character class \<open>[a-zA-Z0-9]\<close>\<close>
  "alnum c = ((97 \<le> c \<and> c \<le> 122) \<or> (65 \<le> c \<and> c \<le> 90) \<or> (48 \<le> c \<and> c \<le> 57))"

section \<open>Share-link validation (app.py, validate_loom_url)\<close>

text \<open>
  Each of the four patterns is a literal followed by \<open>[a-zA-Z0-9]+\<close>; a pattern is kept
  as its literal. \<open>re.match\<close> anchors at the start only: it succeeds when the string
  starts with the literal and the next character is alphanumeric.
\<close>

definition loom_patterns :: "str list" where
  "loom_patterns =
     [U ''https://www.loom.com/share/'',
      U ''https://loom.com/share/'',
      U ''https://www.loom.com/embed/'',
      U ''https://loom.com/embed/'']"

definition re_match :: "str \<Rightarrow> str \<Rightarrow> bool" where
  "re_match pattern s =
     (prefix pattern s \<and>
      (case drop (length pattern) s of [] \<Rightarrow> False | c # _ \<Rightarrow> alnum c))"

text \<open>
  \<open>validators.url\<close> belongs to a library outside the repository: it is the parameter
  \<open>validators_url\<close>, true where the library accepts its argument.
\<close>

definition validate_loom_url :: "(str \<Rightarrow> bool) \<Rightarrow> str \<Rightarrow> bool" where
  "validate_loom_url validators_url url =
     (if url = [] then False
      else if \<not> validators_url url then False
      else list_ex (\<lambda>pattern. re_match pattern (strip url)) loom_patterns)"

section \<open>Reply parser (app.py, generate_questions, lines 593-642)\<close>

text \<open>
  \<open>s.split(sep)\<close> cuts at the non-overlapping occurrences of \<open>sep\<close>, leftmost first, and
  keeps the empty pieces. Every call site passes a non-empty literal.
\<close>

function split_from :: "str \<Rightarrow> str \<Rightarrow> str \<Rightarrow> str list" where
  "split_from sep cur [] = [cur]"
| "split_from sep cur (c # cs) =
     (if sep \<noteq> [] \<and> prefix sep (c # cs)
      then cur # split_from sep [] (drop (length sep) (c # cs))
      else split_from sep (cur @ [c]) cs)"
  by pat_completeness auto
termination
  by (relation "measure (\<lambda>(sep, cur, s). length s)") auto

definition py_split :: "str \<Rightarrow> str \<Rightarrow> str list" where
  "py_split s sep = split_from sep [] s"

definition split_once :: "str \<Rightarrow> nat \<Rightarrow> str list" where
  \<comment> \<open>\<open>s.split(c, 1)\<close> for a one-character separator\<close>
  "split_once s c =
     (if c \<in> set s
      then [takeWhile (\<lambda>x. x \<noteq> c) s, tl (dropWhile (\<lambda>x. x \<noteq> c) s)]
      else [s])"

fun str_nat :: "nat \<Rightarrow> str" where
  \<comment> \<open>the decimal digits an f-string prints for a non-negative integer\<close>
  "str_nat n = (if n < 10 then [48 + n] else str_nat (n div 10) @ [48 + n mod 10])"

declare str_nat.simps [simp del]

definition marker :: str where
  "marker = U ''**Question ''"

definition header :: "nat \<Rightarrow> str" where
  \<comment> \<open>\<open>f'**Question {question_num}:'\<close>\<close>
  "header question_num = U ''**Question '' @ str_nat question_num @ U '':''"

definition camera :: nat where
  \<comment> \<open>U+1F3A5, the emoji that opens a hint line\<close>
  "camera = 127909"

definition video :: nat where
  \<comment> \<open>U+1F4F9, the emoji that opens the duration line\<close>
  "video = 128249"

definition italic_after :: "nat \<Rightarrow> str \<Rightarrow> str option" where
  \<comment> \<open>\<open>re.match(r'<emoji> \*([^\*]+?)\*', line)\<close>: group 1 of the match, if any\<close>
  "italic_after emoji line =
     (case line of
        e # sp # star # rest \<Rightarrow>
          if e = emoji \<and> sp = 32 \<and> star = 42
          then (let body = takeWhile (\<lambda>c. c \<noteq> 42) rest
                in if body \<noteq> [] \<and> length body < length rest then Some body else None)
          else None
      | _ \<Rightarrow> None)"

record scan =
  main_question :: str
  hints_list :: "str list"
  recommended_time :: str
  question_found :: bool

definition scan_init :: scan where
  "scan_init = \<lparr>main_question = [], hints_list = [], recommended_time = [], question_found = False\<rparr>"

definition unbold :: "str \<Rightarrow> str" where
  \<comment> \<open>lines 626-632: the text after the colon without its bold markers\<close>
  "unbold part =
     (let q0 = strip part;
          q1 = (if startswith q0 (U ''**'') then strip (drop 2 q0) else q0)
      in if endswith q1 (U ''**'') then strip (take (length q1 - 2) q1) else q1)"

definition scan_line :: "nat \<Rightarrow> scan \<Rightarrow> str \<Rightarrow> scan" where
  \<comment> \<open>one turn of the loop over the lines of a block\<close>
  "scan_line question_num st raw =
     (let line = strip raw in
      if line = [] then st
      else if startswith line (header question_num) then
        (let parts = split_once line 58;
             st1 = (if length parts > 1 then st\<lparr>main_question := unbold (parts ! 1)\<rparr> else st)
         in st1\<lparr>question_found := True\<rparr>)
      else if question_found st then
        (case italic_after camera line of
           Some hint \<Rightarrow> st\<lparr>hints_list := hints_list st @ [strip hint]\<rparr>
         | None \<Rightarrow>
             (case italic_after video line of
                Some t \<Rightarrow> st\<lparr>recommended_time := strip t\<rparr>
              | None \<Rightarrow> st))
      else st)"

record parsed =
  number :: nat
  question :: str
  hints :: "str list"
  duration :: str
  full_text :: str

definition block_lines :: "str \<Rightarrow> str list" where
  \<comment> \<open>lines 606 and 609: the marker is put back before the block is cut into lines\<close>
  "block_lines block = py_split (marker @ strip block) [10]"

definition parse_block :: "nat \<Rightarrow> str \<Rightarrow> parsed" where
  "parse_block question_num block =
     (let st = foldl (scan_line question_num) scan_init (block_lines block)
      in \<lparr>number = question_num, question = main_question st, hints = hints_list st,
          duration = recommended_time st, full_text = marker @ strip block\<rparr>)"

definition question_blocks :: "str \<Rightarrow> str list" where
  \<comment> \<open>line 596: \<open>questions_text.split('**Question ')[1:]\<close>\<close>
  "question_blocks questions_text = tl (py_split questions_text marker)"


section \<open>Exceptions\<close>

text \<open>
  A call that can raise returns \<open>str + 'a\<close>: \<open>Inl msg\<close> is an \<open>Exception\<close> leaving the call,
  \<open>msg\<close> being what \<open>str(e)\<close> gives for it; a \<open>try ... except Exception\<close> is a case
  distinction on that sum.
\<close>

definition type_name :: "pyval \<Rightarrow> str" where
  "type_name v =
     (case v of PNone \<Rightarrow> U ''NoneType'' | PBool _ \<Rightarrow> U ''bool'' | PInt _ \<Rightarrow> U ''int''
      | PFloat _ \<Rightarrow> U ''float'' | PStr _ \<Rightarrow> U ''str'' | PList _ \<Rightarrow> U ''list''
      | PDict _ \<Rightarrow> U ''dict'')"

definition no_attribute :: "pyval \<Rightarrow> str \<Rightarrow> str" where
  \<comment> \<open>the message of the AttributeError for \<open>v.attr\<close>\<close>
  "no_attribute v attr = [39] @ type_name v @ [39] @ U '' object has no attribute '' @ [39] @ attr @ [39]"

section \<open>Text generation (app.py, get_ai_response)\<close>

text \<open>
  \<open>requests.post\<close> is the parameter \<open>post\<close>: it raises (no connection, timeout) or gives a
  response with a status code and a body, which \<open>response.json()\<close> decodes or rejects. The
  fixed parts of the payload are left out of its arguments.
\<close>

datatype body = NotJson str | JsonBody pyval

record response =
  status_code :: nat
  body :: body

definition sorry_text :: str where
  "sorry_text = U ''Sorry, I couldn'' @ [39] @ U ''t process that.''"

definition connection_error :: "str \<Rightarrow> str" where
  "connection_error e = U ''Connection error: '' @ e @ U ''. Make sure Ollama is running!''"

definition get_ai_response_try :: "(str \<Rightarrow> str \<Rightarrow> str + response) \<Rightarrow> str \<Rightarrow> str \<Rightarrow> str + pyval" where
  \<comment> \<open>the body of the \<open>try\<close>\<close>
  "get_ai_response_try post prompt system_msg =
     (case post prompt system_msg of
        Inl e \<Rightarrow> Inl e
      | Inr response \<Rightarrow>
          (case body response of
             NotJson e \<Rightarrow> Inl e
           | JsonBody v \<Rightarrow>
               (case v of
                  PDict d \<Rightarrow> Inr (dict_get_default d (U ''response'') (PStr sorry_text))
                | _ \<Rightarrow> Inl (no_attribute v (U ''get'')))))"

definition get_ai_response :: "(str \<Rightarrow> str \<Rightarrow> str + response) \<Rightarrow> str \<Rightarrow> str \<Rightarrow> str + pyval" where
  "get_ai_response post prompt system_msg =
     (case get_ai_response_try post prompt system_msg of
        Inl e \<Rightarrow> Inr (PStr (connection_error e))
      | Inr v \<Rightarrow> Inr v)"

section \<open>Persistence gateway (supabase_client.py)\<close>

text \<open>
  \<open>create_client\<close> belongs to the client library: it is a parameter that gives a client or
  raises. A client is what its \<open>table("candidates").insert(row).execute()\<close> does with a
  row: raise, or return \<open>result.data\<close>.
\<close>

type_synonym client = "pydict \<Rightarrow> str + pyval list"

definition SupabaseClient_init ::
  "(str \<Rightarrow> str option) \<Rightarrow> (str option \<Rightarrow> str option \<Rightarrow> str + client) \<Rightarrow> str + client" where
  "SupabaseClient_init getenv create_client =
     (let url = getenv (U ''SUPABASE_URL'');
          key = getenv (U ''SUPABASE_KEY'')
      in create_client url key)"

definition strict_create_client :: "client \<Rightarrow> str option \<Rightarrow> str option \<Rightarrow> str + client" where
  \<comment> \<open>an instance of the parameter: a factory that refuses a missing URL or key, as the
      client library does\<close>
  "strict_create_client c url key =
     (if url = None \<or> url = Some [] then Inl (U ''supabase_url is required'')
      else if key = None \<or> key = Some [] then Inl (U ''supabase_key is required'')
      else Inr c)"

definition start_session ::
  "(str \<Rightarrow> str option) \<Rightarrow> (str option \<Rightarrow> str option \<Rightarrow> str + client) \<Rightarrow> client option \<Rightarrow> str + client" where
  \<comment> \<open>app.py, lines 141-142, at module level and outside any \<open>try\<close>\<close>
  "start_session getenv create_client supabase_client =
     (case supabase_client of
        None \<Rightarrow> SupabaseClient_init getenv create_client
      | Some c \<Rightarrow> Inr c)"

text \<open>
  The local log: the file is absent, holds what \<open>json.load\<close> rejects, or holds a JSON
  value. What the file system does to one call is in \<open>local_io\<close>.
\<close>

datatype log_file = Missing | Unparsable | Json pyval

record local_io =
  now :: str
  read_error :: "str option"
  decode_error :: str
  write_error :: "str option"
  dump_error :: "str option"

record world =
  candidates_file :: log_file
  insert_requests :: "pydict list"

text \<open>
  The three dictionaries \<open>save_candidate\<close> returns:
  \<open>{"success": True, "data": d}\<close>, \<open>{"success": True, "fallback": "json", "error": e}\<close>
  and \<open>{"success": False, "error": e}\<close>.
\<close>

datatype save_result = Remote pyval | Fallback str | Failure str

definition supabase_data :: "pydict \<Rightarrow> pydict" where
  "supabase_data candidate_data =
     [(U ''name'', dict_get candidate_data (U ''name'')),
      (U ''email'', dict_get candidate_data (U ''email'')),
      (U ''phone'', dict_get candidate_data (U ''phone'')),
      (U ''experience'', dict_get candidate_data (U ''experience'')),
      (U ''position'', dict_get candidate_data (U ''position'')),
      (U ''location'', dict_get candidate_data (U ''location'')),
      (U ''programming_languages'', dict_get_default candidate_data (U ''programming_languages'') (PList [])),
      (U ''frameworks'', dict_get_default candidate_data (U ''frameworks'') (PList [])),
      (U ''databases'', dict_get_default candidate_data (U ''databases'') (PList [])),
      (U ''tools'', dict_get_default candidate_data (U ''tools'') (PList [])),
      (U ''cloud_platforms'', dict_get_default candidate_data (U ''cloud_platforms'') (PList [])),
      (U ''other_skills'', dict_get candidate_data (U ''other_skills'')),
      (U ''generated_questions'', dict_get candidate_data (U ''generated_questions'')),
      (U ''loom_video_url'', dict_get candidate_data (U ''loom_video_url'')),
      (U ''status'', PStr (U ''submitted''))]"

definition remote_insert :: "client \<Rightarrow> pydict \<Rightarrow> str + pyval" where
  \<comment> \<open>lines 37-38: the insert, then \<open>result.data[0]\<close>\<close>
  "remote_insert supabase row =
     (case supabase row of
        Inl e \<Rightarrow> Inl e
      | Inr data \<Rightarrow> (case data of [] \<Rightarrow> Inl (U ''list index out of range'') | d # _ \<Rightarrow> Inr d))"

definition load_candidates :: "local_io \<Rightarrow> log_file \<Rightarrow> str + pyval" where
  \<comment> \<open>lines 47-51\<close>
  "load_candidates io f =
     (case f of
        Missing \<Rightarrow> Inr (PList [])
      | Unparsable \<Rightarrow> (case read_error io of Some e \<Rightarrow> Inl e | None \<Rightarrow> Inl (decode_error io))
      | Json v \<Rightarrow> (case read_error io of Some e \<Rightarrow> Inl e | None \<Rightarrow> Inr v))"

definition save_to_json_try ::
  "local_io \<Rightarrow> pydict \<Rightarrow> str \<Rightarrow> world \<Rightarrow> (str + save_result) \<times> pydict \<times> world" where
  \<comment> \<open>the body of the \<open>try\<close>, with the caller's record and the world as it leaves them\<close>
  "save_to_json_try io candidate_data error_msg w =
     (case load_candidates io (candidates_file w) of
        Inl e \<Rightarrow> (Inl e, candidate_data, w)
      | Inr candidates \<Rightarrow>
          (let cd1 = dict_setitem candidate_data (U ''timestamp'') (PStr (now io));
               cd2 = dict_setitem cd1 (U ''supabase_error'') (PStr error_msg)
           in case candidates of
                PList cs \<Rightarrow>
                  (case write_error io of
                     Some e \<Rightarrow> (Inl e, cd2, w)
                   | None \<Rightarrow>
                       (case dump_error io of
                          Some e \<Rightarrow> (Inl e, cd2, w\<lparr>candidates_file := Unparsable\<rparr>)
                        | None \<Rightarrow>
                            (Inr (Fallback error_msg), cd2,
                             w\<lparr>candidates_file := Json (PList (cs @ [PDict cd2]))\<rparr>)))
              | _ \<Rightarrow> (Inl (no_attribute candidates (U ''append'')), cd2, w)))"

definition save_to_json ::
  "local_io \<Rightarrow> pydict \<Rightarrow> str \<Rightarrow> world \<Rightarrow> (str + save_result) \<times> pydict \<times> world" where
  "save_to_json io candidate_data error_msg w =
     (case save_to_json_try io candidate_data error_msg w of
        (Inl json_error, cd, w') \<Rightarrow> (Inr (Failure json_error), cd, w')
      | (Inr r, cd, w') \<Rightarrow> (Inr r, cd, w'))"

definition save_candidate ::
  "client \<Rightarrow> local_io \<Rightarrow> pydict \<Rightarrow> world \<Rightarrow> (str + save_result) \<times> pydict \<times> world" where
  "save_candidate supabase io candidate_data w =
     (let row = supabase_data candidate_data;
          w1 = w\<lparr>insert_requests := insert_requests w @ [row]\<rparr>
      in case remote_insert supabase row of
           Inl e \<Rightarrow> save_to_json io candidate_data e w1
         | Inr d \<Rightarrow> (Inr (Remote d), candidate_data, w1))"

section \<open>Video-responses form (app.py, lines 144-156 and 589-729)\<close>

datatype notice = Error str | Warning str | Success str

definition save_candidate_hybrid ::
  "client \<Rightarrow> local_io \<Rightarrow> pydict \<Rightarrow> world \<Rightarrow> (str + bool \<times> notice) \<times> pydict \<times> world" where
  "save_candidate_hybrid supabase io data w =
     (case save_candidate supabase io data w of
        (Inl e, cd, w') \<Rightarrow> (Inl e, cd, w')
      | (Inr result, cd, w') \<Rightarrow>
          (case result of
             Fallback e \<Rightarrow>
               (Inr (True, Warning ([9888, 65039] @ U '' Saved locally (Supabase error: '' @ e @ U '')'')), cd, w')
           | Remote d \<Rightarrow>
               (Inr (True, Success ([9989] @ U '' Data saved to cloud successfully!'')), cd, w')
           | Failure e \<Rightarrow>
               (Inr (False, Error ([10060] @ U '' Error saving data: '' @ e)), cd, w')))"

text \<open>
  The session keeps the step, the record being filled, the cached reply of the generator
  and the video responses, a dictionary from \<open>question_<n>\<close> to the stored answer; line 591
  creates it empty on first entry.
\<close>

record session_state =
  step :: nat
  candidate_data :: pydict
  generated_questions :: str
  video_responses :: pydict

text \<open>
  One run of the form: what the text input of question \<open>n\<close> returns, the clock when its
  answer is stored, and whether the submit button was pressed.
\<close>

record form =
  loom_links :: "nat \<Rightarrow> str"
  link_time :: "nat \<Rightarrow> str"
  submitted :: bool

definition question_key :: "nat \<Rightarrow> str" where
  \<comment> \<open>\<open>f"question_{question_num}"\<close>\<close>
  "question_key question_num = U ''question_'' @ str_nat question_num"

definition video_response :: "parsed \<Rightarrow> str \<Rightarrow> str \<Rightarrow> pyval" where
  \<comment> \<open>lines 682-689\<close>
  "video_response q loom_link t =
     PDict [(U ''question'', PStr (question q)),
            (U ''hints'', PList (map PStr (hints q))),
            (U ''recommended_time'', PStr (duration q)),
            (U ''full_text'', PStr (full_text q)),
            (U ''loom_url'', PStr loom_link),
            (U ''timestamp'', PStr t)]"

definition collect_link ::
  "(str \<Rightarrow> bool) \<Rightarrow> form \<Rightarrow> str list \<Rightarrow> pydict \<times> notice list \<Rightarrow> nat \<Rightarrow> pydict \<times> notice list" where
  \<comment> \<open>one turn of the loop over the questions: lines 604-697\<close>
  "collect_link validators_url f blocks acc i =
     (case acc of (vr, out) \<Rightarrow>
        (let question_num = i + 1;
             q = parse_block question_num (blocks ! i);
             loom_link = loom_links f question_num;
             key = question_key question_num
         in if loom_link \<noteq> [] then
              (if validate_loom_url validators_url loom_link
               then (dict_setitem vr key (video_response q loom_link (link_time f question_num)),
                     out @ [Success ([9989] @ U '' Valid Loom link for Question '' @ str_nat question_num)])
               else ((if dict_contains vr key then dict_delitem vr key else vr),
                     out @ [Error ([10060] @ U '' Invalid Loom URL format for Question '' @ str_nat question_num
                                   @ U ''. Please enter a valid Loom share or embed link.'')]))
            else if dict_contains vr key then (dict_delitem vr key, out)
            else (vr, out)))"

definition collect_links ::
  "(str \<Rightarrow> bool) \<Rightarrow> form \<Rightarrow> str list \<Rightarrow> pydict \<Rightarrow> pydict \<times> notice list" where
  \<comment> \<open>\<open>for i in range(num_questions)\<close>\<close>
  "collect_links validators_url f blocks vr =
     foldl (collect_link validators_url f blocks) (vr, []) [0..<length blocks]"

definition incomplete_notice :: notice where
  "incomplete_notice =
     Error (U ''Please provide valid Loom video links for all questions before submitting.'')"

definition submission_record :: "session_state \<Rightarrow> pydict \<Rightarrow> pydict" where
  \<comment> \<open>lines 714-721: the record as it is handed to the save\<close>
  "submission_record st vr =
     (let cd = dict_update (candidate_data st)
                 [(U ''video_responses'', PDict vr),
                  (U ''generated_questions_full_text'', PStr (generated_questions st))]
      in if dict_contains cd (U ''generated_questions'')
         then dict_delitem cd (U ''generated_questions'')
         else cd)"

definition share_video_responses :: "pydict \<Rightarrow> pydict \<Rightarrow> pydict" where
  \<comment> \<open>line 715 stores the session's dictionary object itself under \<open>video_responses\<close>, and
      nothing else writes that key: once it is there (after a submit whose save failed), what
      the loop does to the video responses shows through the record\<close>
  "share_video_responses cd vr =
     (if dict_contains cd (U ''video_responses'')
      then dict_setitem cd (U ''video_responses'') (PDict vr)
      else cd)"

definition generate_questions ::
  "(str \<Rightarrow> bool) \<Rightarrow> client \<Rightarrow> local_io \<Rightarrow> form \<Rightarrow> session_state \<Rightarrow> world
     \<Rightarrow> str + session_state \<times> world \<times> notice list" where
  \<comment> \<open>the form of step 3, from line 593 on; \<open>Inl\<close> is an exception leaving the run\<close>
  "generate_questions validators_url supabase io f st w =
     (let blocks = question_blocks (generated_questions st);
          num_questions = length blocks;
          (vr, out) = collect_links validators_url f blocks (video_responses st);
          st1 = st\<lparr>video_responses := vr,
                   candidate_data := share_video_responses (candidate_data st) vr\<rparr>
      in if submitted f then
           (if length vr < num_questions then Inr (st1, w, out @ [incomplete_notice])
            else
              (case save_candidate_hybrid supabase io (submission_record st1 vr) w of
                 (Inl e, cd, w') \<Rightarrow> Inl e
               | (Inr (saved, n), cd, w') \<Rightarrow>
                   (if saved then Inr (st1\<lparr>candidate_data := cd, step := 4\<rparr>, w', out @ [n])
                    else Inr (st1\<lparr>candidate_data := cd\<rparr>, w', out @ [n]))))
         else Inr (st1, w, out))"

section \<open>The specification's own notions\<close>

text \<open>
  The whitelist in the words of the specification: \<open>https://[www.]loom.com/share/<id>\<close> or
  \<open>https://[www.]loom.com/embed/<id>\<close>, the identifier starting with an alphanumeric
  character.
\<close>

definition spec_share_link :: "str \<Rightarrow> bool" where
  "spec_share_link t =
     (\<exists>host \<in> {U ''www.loom.com'', U ''loom.com''}. \<exists>seg \<in> {U ''share'', U ''embed''}.
        \<exists>c rest. t = U ''https://'' @ host @ U ''/'' @ seg @ U ''/'' @ c # rest \<and> alnum c)"


section \<open>Concrete inputs\<close>

text \<open>Instances of the parameters and small session data, for the evaluations below.\<close>

definition any_url :: "str \<Rightarrow> bool" where
  "any_url u = True"

definition refusing_client :: client where
  "refusing_client row = Inl (U ''connection refused'')"

definition silent_client :: client where
  \<comment> \<open>an insert that raises an exception without a message, such as \<open>TimeoutError()\<close>\<close>
  "silent_client row = Inl []"

definition accepting_client :: client where
  "accepting_client row = Inr [PDict row]"

definition quiet_io :: local_io where
  "quiet_io = \<lparr>now = U ''2024-05-01T10:00:00'', read_error = None,
               decode_error = U ''Expecting value'', write_error = None, dump_error = None\<rparr>"

definition broken_io :: local_io where
  "broken_io = \<lparr>now = U ''2024-05-01T10:00:00'', read_error = None,
                decode_error = U ''Expecting value'',
                write_error = Some (U ''Permission denied''), dump_error = None\<rparr>"

definition no_env :: "str \<Rightarrow> str option" where
  \<comment> \<open>an environment without \<open>SUPABASE_URL\<close> and \<open>SUPABASE_KEY\<close>\<close>
  "no_env name = None"

definition busy_post :: "str \<Rightarrow> str \<Rightarrow> str + response" where
  \<comment> \<open>a reply with a non-success status whose JSON object has a \<open>response\<close> field\<close>
  "busy_post prompt system_msg =
     Inr \<lparr>status_code = 503, body = JsonBody (PDict [(U ''response'', PStr (U ''pong''))])\<rparr>"

definition timeout_post :: "str \<Rightarrow> str \<Rightarrow> str + response" where
  "timeout_post prompt system_msg = Inl (U ''Read timed out.'')"

definition error_post :: "str \<Rightarrow> str \<Rightarrow> str + response" where
  \<comment> \<open>the generation service's own error reply\<close>
  "error_post prompt system_msg =
     Inr \<lparr>status_code = 404, body = JsonBody (PDict [(U ''error'', PStr (U ''model not found''))])\<rparr>"

definition array_post :: "str \<Rightarrow> str \<Rightarrow> str + response" where
  \<comment> \<open>a reply whose body is JSON but not an object\<close>
  "array_post prompt system_msg = Inr \<lparr>status_code = 500, body = JsonBody (PList [])\<rparr>"

definition html_post :: "str \<Rightarrow> str \<Rightarrow> str + response" where
  "html_post prompt system_msg =
     Inr \<lparr>status_code = 502, body = NotJson (U ''Expecting value: line 1 column 1 (char 0)'')\<rparr>"

definition ada :: pydict where
  \<comment> \<open>the record after the basic-information and technical-skills steps\<close>
  "ada =
     [(U ''name'', PStr (U ''Ada Lovelace'')),
      (U ''email'', PStr (U ''ada@example.com'')),
      (U ''phone'', PStr []),
      (U ''experience'', PInt 5),
      (U ''position'', PStr (U ''Backend Engineer'')),
      (U ''location'', PStr []),
      (U ''programming_languages'', PList [PStr (U ''Python'')]),
      (U ''frontend_frameworks'', PList []),
      (U ''backend_frameworks'', PList []),
      (U ''databases'', PList []),
      (U ''cloud_platforms'', PList []),
      (U ''devops_tools'', PList []),
      (U ''mobile_development'', PList []),
      (U ''data_science'', PList []),
      (U ''testing_frameworks'', PList []),
      (U ''cms_ecommerce'', PList []),
      (U ''other_technologies'', PList []),
      (U ''additional_skills'', PStr []),
      (U ''all_selected_tech_list'', PList [PStr (U ''Python'')])]"

definition ada_session :: session_state where
  "ada_session = \<lparr>step = 3, candidate_data = ada,
                   generated_questions = U ''**Question 1: Why?**'', video_responses = []\<rparr>"

definition no_question_session :: session_state where
  \<comment> \<open>the generator's reply held no question marker\<close>
  "no_question_session = \<lparr>step = 3, candidate_data = ada,
                           generated_questions = U ''Connection error'', video_responses = []\<rparr>"

definition ada_form :: form where
  "ada_form = \<lparr>loom_links = (\<lambda>n. U ''https://www.loom.com/share/abc123''),
                link_time = (\<lambda>n. U ''2024-05-01T09:59:00''), submitted = True\<rparr>"

definition empty_form :: form where
  "empty_form = \<lparr>loom_links = (\<lambda>n. []), link_time = (\<lambda>n. U ''2024-05-01T09:59:00''),
                  submitted = True\<rparr>"

definition fresh_world :: world where
  "fresh_world = \<lparr>candidates_file = Missing, insert_requests = []\<rparr>"

section \<open>Share-link validation: properties\<close>

lemma re_match_iff: "re_match p t \<longleftrightarrow> (\<exists>c rest. t = p @ c # rest \<and> alnum c)"
proof
  assume "re_match p t"
  then obtain zs where t: "t = p @ zs" and z: "(case zs of [] \<Rightarrow> False | c # _ \<Rightarrow> alnum c)"
    by (auto simp: re_match_def prefix_def)
  from z obtain c rest where "zs = c # rest" "alnum c" by (cases zs) auto
  with t show "\<exists>c rest. t = p @ c # rest \<and> alnum c" by blast
next
  assume "\<exists>c rest. t = p @ c # rest \<and> alnum c"
  then show "re_match p t" by (auto simp: re_match_def)
qed

lemma strip_blank:
  assumes "\<forall>c\<in>set s. isspace c"
  shows "strip s = []"
proof -
  from assms have h: "dropWhile isspace s = []" by (induction s) auto
  show ?thesis unfolding strip_def lstrip_def rstrip_def h by simp
qed

lemma validate_iff:
  "validate_loom_url ok s \<longleftrightarrow> s \<noteq> [] \<and> ok s \<and> (\<exists>p\<in>set loom_patterns. re_match p (strip s))"
  by (auto simp: validate_loom_url_def list_ex_iff)

lemma whitelist_spec: "(\<exists>p\<in>set loom_patterns. re_match p t) \<longleftrightarrow> spec_share_link t"
  unfolding re_match_iff spec_share_link_def loom_patterns_def by simp blast

lemma spec_share_link_Nil: "\<not> spec_share_link []"
  by (simp add: spec_share_link_def)

lemma validate_spec: "validate_loom_url ok s \<longleftrightarrow> ok s \<and> spec_share_link (strip s)"
proof -
  have "spec_share_link (strip s) \<Longrightarrow> s \<noteq> []"
    using spec_share_link_Nil by (auto simp: strip_def lstrip_def rstrip_def)
  then show ?thesis unfolding validate_iff whitelist_spec by blast
qed

text \<open>
  C6. \<open>validate_loom_url\<close> rejects the empty string, every blank string and every string
  the general URL check rejects; it accepts exactly the strings that pass the URL check
  and whose trimmed form starts with \<open>https://[www.]loom.com/share/\<close> or
  \<open>https://[www.]loom.com/embed/\<close> followed by an alphanumeric character. The share link
  of the specification's example is accepted once the URL check accepts it; the link on
  another host is rejected whatever the URL check says.
\<close>

theorem validate_loom_url_whitelist:
  "\<not> validate_loom_url ok [] \<and>
   ((\<forall>c\<in>set s. isspace c) \<longrightarrow> \<not> validate_loom_url ok s) \<and>
   (\<not> ok s \<longrightarrow> \<not> validate_loom_url ok s) \<and>
   (validate_loom_url ok s \<longleftrightarrow> ok s \<and> spec_share_link (strip s)) \<and>
   (ok (U ''https://www.loom.com/share/abc123XYZ'')
      \<longrightarrow> validate_loom_url ok (U ''https://www.loom.com/share/abc123XYZ'')) \<and>
   \<not> validate_loom_url ok (U ''https://evil.com/share/abc123'')"
proof (intro conjI impI)
  show "\<not> validate_loom_url ok []" by (simp add: validate_loom_url_def)
  show "\<not> validate_loom_url ok s" if "\<forall>c\<in>set s. isspace c"
    using strip_blank [OF that] spec_share_link_Nil by (simp add: validate_spec)
  show "\<not> validate_loom_url ok s" if "\<not> ok s"
    using that by (simp add: validate_spec)
  show "validate_loom_url ok s \<longleftrightarrow> ok s \<and> spec_share_link (strip s)"
    by (rule validate_spec)
  show "validate_loom_url ok (U ''https://www.loom.com/share/abc123XYZ'')"
    if "ok (U ''https://www.loom.com/share/abc123XYZ'')"
    using that
    by (simp add: validate_loom_url_def loom_patterns_def re_match_def strip_def lstrip_def
        rstrip_def isspace_def alnum_def)
  show "\<not> validate_loom_url ok (U ''https://evil.com/share/abc123'')"
    by (simp add: validate_loom_url_def loom_patterns_def re_match_def strip_def lstrip_def
        rstrip_def isspace_def alnum_def)
qed

theorem validate_loom_url_whitelist_witness:
  "\<not> validate_loom_url (prefix (U ''https://'')) (U ''   '') \<and>
   validate_loom_url (prefix (U ''https://'')) (U ''https://www.loom.com/share/abc123XYZ'')"
proof -
  have blank: "\<forall>c\<in>set (U ''   ''). isspace c" by (simp add: isspace_def)
  have rejected: "\<not> prefix (U ''https://'') (U ''   '')" by simp
  have accepted: "prefix (U ''https://'') (U ''https://www.loom.com/share/abc123XYZ'')" by simp
  from validate_loom_url_whitelist [of "prefix (U ''https://'')" "U ''   ''"] blank rejected accepted
  show ?thesis by blast
qed

text \<open>
  C9. The whitelist match is a prefix match: a string that passes the URL check and whose
  trimmed form is one of the four prefixes, one alphanumeric character and then anything
  at all is accepted.
\<close>

theorem validate_loom_url_prefix_only:
  "ok s \<Longrightarrow> p \<in> set loom_patterns \<Longrightarrow> strip s = p @ c # rest \<Longrightarrow> alnum c
     \<Longrightarrow> validate_loom_url ok s"
proof -
  assume ok: "ok s" and p: "p \<in> set loom_patterns" and s: "strip s = p @ c # rest" and c: "alnum c"
  have "re_match p (strip s)" unfolding re_match_iff using s c by blast
  moreover have "s \<noteq> []" using s by (auto simp: strip_def lstrip_def rstrip_def)
  ultimately show ?thesis using ok p unfolding validate_iff by blast
qed

theorem validate_loom_url_prefix_only_witness:
  "validate_loom_url (\<lambda>u. True) (U '' https://loom.com/embed/a/../x?y=1#!! '')"
proof -
  have p: "U ''https://loom.com/embed/'' \<in> set loom_patterns" by (simp add: loom_patterns_def)
  have s: "strip (U '' https://loom.com/embed/a/../x?y=1#!! '')
             = U ''https://loom.com/embed/'' @ 97 # U ''/../x?y=1#!!''"
    by (simp add: strip_def lstrip_def rstrip_def isspace_def)
  have c: "alnum 97" by (simp add: alnum_def)
  show ?thesis
    by (rule validate_loom_url_prefix_only [of "\<lambda>u. True", OF _ p s c]) simp
qed

section \<open>Reply parser: properties\<close>





lemma scan_line_skip:
  "\<not> question_found st \<Longrightarrow> \<not> startswith (strip l) (header n) \<Longrightarrow> scan_line n st l = st"
  by (simp add: scan_line_def Let_def)

lemma scan_skip_all:
  "\<not> question_found st \<Longrightarrow> \<forall>l\<in>set ls. \<not> startswith (strip l) (header n)
     \<Longrightarrow> foldl (scan_line n) st ls = st"
  by (induction ls) (simp_all add: scan_line_skip)

lemma scan_dropWhile:
  "\<not> question_found st \<Longrightarrow>
   foldl (scan_line n) st ls
     = foldl (scan_line n) st (dropWhile (\<lambda>l. \<not> startswith (strip l) (header n)) ls)"
  by (induction ls) (simp_all add: scan_line_skip)

lemma parse_block_no_header:
  assumes "\<forall>l\<in>set (block_lines b). \<not> startswith (strip l) (header n)"
  shows "question (parse_block n b) = [] \<and> hints (parse_block n b) = []
         \<and> duration (parse_block n b) = []"
proof -
  have "foldl (scan_line n) scan_init (block_lines b) = scan_init"
    using assms by (intro scan_skip_all) (simp_all add: scan_init_def)
  then show ?thesis by (simp add: parse_block_def scan_init_def)
qed






text \<open>
  C10. The scan of a block ignores every line before the first line that starts with
  \<open>**Question <n>:\<close>: its result is the result of scanning from that line on. A block
  without such a line therefore has no hints and an empty duration, whatever hint or
  duration lines it holds.
\<close>

theorem hints_after_header_only:
  "foldl (scan_line n) scan_init ls
     = foldl (scan_line n) scan_init (dropWhile (\<lambda>l. \<not> startswith (strip l) (header n)) ls) \<and>
   ((\<forall>l\<in>set (block_lines b). \<not> startswith (strip l) (header n))
      \<longrightarrow> hints (parse_block n b) = [] \<and> duration (parse_block n b) = [])"
proof (intro conjI impI)
  show "foldl (scan_line n) scan_init ls
          = foldl (scan_line n) scan_init (dropWhile (\<lambda>l. \<not> startswith (strip l) (header n)) ls)"
    by (rule scan_dropWhile) (simp add: scan_init_def)
next
  assume "\<forall>l\<in>set (block_lines b). \<not> startswith (strip l) (header n)"
  from parse_block_no_header [OF this]
  show "hints (parse_block n b) = []" and "duration (parse_block n b) = []" by simp_all
qed

theorem hints_after_header_only_witness:
  "hints (parse_block 1 (U ''2: Q'' @ [10, camera] @ U '' *h*'' @ [10, video] @ U '' *t*'')) = [] \<and>
   duration (parse_block 1 (U ''2: Q'' @ [10, camera] @ U '' *h*'' @ [10, video] @ U '' *t*'')) = [] \<and>
   hints (parse_block 2 (U ''2: Q'' @ [10, camera] @ U '' *h*'' @ [10, video] @ U '' *t*'')) = [U ''h''] \<and>
   duration (parse_block 2 (U ''2: Q'' @ [10, camera] @ U '' *h*'' @ [10, video] @ U '' *t*'')) = U ''t''"
proof -
  let ?b = "U ''2: Q'' @ [10, camera] @ U '' *h*'' @ [10, video] @ U '' *t*''"
  have none: "\<forall>l\<in>set (block_lines ?b). \<not> startswith (strip l) (header 1)"
    by code_simp
  have found: "hints (parse_block 2 ?b) = [U ''h''] \<and> duration (parse_block 2 ?b) = U ''t''"
    by code_simp
  from hints_after_header_only [of 1 "[]" ?b] none found show ?thesis by blast
qed

section \<open>Text generation: properties\<close>

lemma get_ai_response_returns: "\<exists>v. get_ai_response post p s = Inr v"
  by (simp add: get_ai_response_def split: sum.split)

text \<open>
  C7, as the code has it. \<open>get_ai_response\<close> never raises. When the call itself raises
  (no connection, timeout), when the body is not JSON, and when the body is a JSON value
  other than an object (an array, a string, a number, \<open>null\<close>), it returns the literal
  \<open>Connection error: <message>. Make sure Ollama is running!\<close>, the message being that of
  the exception: of the call, of the decoder, or of the AttributeError for \<open>.get\<close>. When
  the reply is a JSON object without a \<open>response\<close> field, as the service's error replies
  are, it returns the literal \<open>Sorry, I couldn't process that.\<close>. The status code is never
  read: a JSON object with a \<open>response\<close> field gives that field, whatever the status.
\<close>

theorem get_ai_response_never_raises:
  "(\<exists>v. get_ai_response post p s = Inr v) \<and>
   (\<forall>e. post p s = Inl e \<longrightarrow> get_ai_response post p s = Inr (PStr (connection_error e))) \<and>
   (\<forall>r e. post p s = Inr r \<and> body r = NotJson e
      \<longrightarrow> get_ai_response post p s = Inr (PStr (connection_error e))) \<and>
   (\<forall>r v. post p s = Inr r \<and> body r = JsonBody v \<and> (\<forall>d. v \<noteq> PDict d)
      \<longrightarrow> get_ai_response post p s
            = Inr (PStr (connection_error (no_attribute v (U ''get''))))) \<and>
   (\<forall>r d. post p s = Inr r \<and> body r = JsonBody (PDict d) \<and> \<not> dict_contains d (U ''response'')
      \<longrightarrow> get_ai_response post p s = Inr (PStr sorry_text)) \<and>
   (\<forall>r d v. post p s = Inr r \<and> body r = JsonBody (PDict d) \<and> map_of d (U ''response'') = Some v
      \<longrightarrow> get_ai_response post p s = Inr v)"
proof (intro conjI allI impI)
  show "\<exists>v. get_ai_response post p s = Inr v" by (rule get_ai_response_returns)
next
  fix e assume "post p s = Inl e"
  then show "get_ai_response post p s = Inr (PStr (connection_error e))"
    by (simp add: get_ai_response_def get_ai_response_try_def)
next
  fix r e assume "post p s = Inr r \<and> body r = NotJson e"
  then show "get_ai_response post p s = Inr (PStr (connection_error e))"
    by (simp add: get_ai_response_def get_ai_response_try_def)
next
  fix r v assume a: "post p s = Inr r \<and> body r = JsonBody v \<and> (\<forall>d. v \<noteq> PDict d)"
  then have "get_ai_response_try post p s = Inl (no_attribute v (U ''get''))"
    by (cases v) (simp_all add: get_ai_response_try_def)
  then show "get_ai_response post p s = Inr (PStr (connection_error (no_attribute v (U ''get''))))"
    by (simp add: get_ai_response_def)
next
  fix r d assume "post p s = Inr r \<and> body r = JsonBody (PDict d) \<and> \<not> dict_contains d (U ''response'')"
  then show "get_ai_response post p s = Inr (PStr sorry_text)"
    by (simp add: get_ai_response_def get_ai_response_try_def dict_contains_def dict_get_default_def)
next
  fix r d v assume "post p s = Inr r \<and> body r = JsonBody (PDict d) \<and> map_of d (U ''response'') = Some v"
  then show "get_ai_response post p s = Inr v"
    by (simp add: get_ai_response_def get_ai_response_try_def dict_get_default_def)
qed

theorem get_ai_response_never_raises_witness:
  "get_ai_response timeout_post [] [] = Inr (PStr (connection_error (U ''Read timed out.''))) \<and>
   get_ai_response html_post [] []
     = Inr (PStr (connection_error (U ''Expecting value: line 1 column 1 (char 0)''))) \<and>
   get_ai_response array_post [] []
     = Inr (PStr (connection_error (no_attribute (PList []) (U ''get'')))) \<and>
   get_ai_response error_post [] [] = Inr (PStr sorry_text) \<and>
   get_ai_response busy_post [] [] = Inr (PStr (U ''pong''))"
proof -
  have l: "array_post [] [] = Inr \<lparr>status_code = 500, body = JsonBody (PList [])\<rparr>
           \<and> body \<lparr>status_code = 500, body = JsonBody (PList [])\<rparr> = JsonBody (PList [])
           \<and> (\<forall>d. PList [] \<noteq> PDict d)"
    by (simp add: array_post_def)
  from get_ai_response_never_raises [of array_post "[]" "[]"] l
  have 5: "get_ai_response array_post [] []
             = Inr (PStr (connection_error (no_attribute (PList []) (U ''get''))))"
    by blast
  have a: "timeout_post [] [] = Inl (U ''Read timed out.'')"
    by (simp add: timeout_post_def)
  have b: "html_post [] [] = Inr \<lparr>status_code = 502, body = NotJson (U ''Expecting value: line 1 column 1 (char 0)'')\<rparr>
           \<and> body \<lparr>status_code = 502, body = NotJson (U ''Expecting value: line 1 column 1 (char 0)'')\<rparr>
               = NotJson (U ''Expecting value: line 1 column 1 (char 0)'')"
    by (simp add: html_post_def)
  have c: "error_post [] [] = Inr \<lparr>status_code = 404, body = JsonBody (PDict [(U ''error'', PStr (U ''model not found''))])\<rparr>
           \<and> body \<lparr>status_code = 404, body = JsonBody (PDict [(U ''error'', PStr (U ''model not found''))])\<rparr>
               = JsonBody (PDict [(U ''error'', PStr (U ''model not found''))])
           \<and> \<not> dict_contains [(U ''error'', PStr (U ''model not found''))] (U ''response'')"
    by (simp add: error_post_def dict_contains_def)
  have d: "busy_post [] [] = Inr \<lparr>status_code = 503, body = JsonBody (PDict [(U ''response'', PStr (U ''pong''))])\<rparr>
           \<and> body \<lparr>status_code = 503, body = JsonBody (PDict [(U ''response'', PStr (U ''pong''))])\<rparr>
               = JsonBody (PDict [(U ''response'', PStr (U ''pong''))])
           \<and> map_of [(U ''response'', PStr (U ''pong''))] (U ''response'') = Some (PStr (U ''pong''))"
    by (simp add: busy_post_def)
  from get_ai_response_never_raises [of timeout_post "[]" "[]"] a
  have 1: "get_ai_response timeout_post [] [] = Inr (PStr (connection_error (U ''Read timed out.'')))"
    by blast
  from get_ai_response_never_raises [of html_post "[]" "[]"] b
  have 2: "get_ai_response html_post [] []
             = Inr (PStr (connection_error (U ''Expecting value: line 1 column 1 (char 0)'')))"
    by blast
  from get_ai_response_never_raises [of error_post "[]" "[]"] c
  have 3: "get_ai_response error_post [] [] = Inr (PStr sorry_text)"
    by blast
  from get_ai_response_never_raises [of busy_post "[]" "[]"] d
  have 4: "get_ai_response busy_post [] [] = Inr (PStr (U ''pong''))"
    by blast
  from 1 2 3 4 5 show ?thesis by blast
qed

text \<open>
  The claim as written fails on a reply with a non-success status whose JSON object has a
  \<open>response\<close> field: the function returns that field, not a diagnostic literal.
\<close>

theorem get_ai_response_status_counterexample:
  "busy_post [] [] = Inr \<lparr>status_code = 503, body = JsonBody (PDict [(U ''response'', PStr (U ''pong''))])\<rparr> \<and>
   get_ai_response busy_post [] [] = Inr (PStr (U ''pong'')) \<and>
   U ''pong'' \<noteq> sorry_text \<and>
   \<not> prefix (U ''Connection error: '') (U ''pong'')"
  by (simp add: busy_post_def get_ai_response_def get_ai_response_try_def dict_get_default_def
      sorry_text_def)

section \<open>Persistence gateway: properties\<close>

lemma map_of_setitem: "map_of (dict_setitem d k v) = (map_of d)(k \<mapsto> v)"
  by (simp add: dict_setitem_def update_conv')

lemma map_of_delitem: "map_of (dict_delitem d k) = (map_of d)(k := None)"
  by (simp add: dict_delitem_def delete_conv')

lemma save_to_json_appends:
  assumes "load_candidates io (candidates_file w) = Inr (PList cs)"
    and "write_error io = None" and "dump_error io = None"
  shows "save_to_json io cd e w =
           (Inr (Fallback e),
            dict_setitem (dict_setitem cd (U ''timestamp'') (PStr (now io))) (U ''supabase_error'') (PStr e),
            w\<lparr>candidates_file := Json (PList (cs @
                 [PDict (dict_setitem (dict_setitem cd (U ''timestamp'') (PStr (now io)))
                           (U ''supabase_error'') (PStr e))]))\<rparr>)"
  using assms by (simp add: save_to_json_def save_to_json_try_def Let_def)

lemma save_to_json_fails:
  assumes "\<not> (\<exists>cs. load_candidates io (candidates_file w) = Inr (PList cs)
                  \<and> write_error io = None \<and> dump_error io = None)"
  shows "\<exists>m cd' w'. save_to_json io cd e w = (Inr (Failure m), cd', w')
           \<and> (cd' = cd \<or> cd' = dict_setitem (dict_setitem cd (U ''timestamp'') (PStr (now io)))
                                   (U ''supabase_error'') (PStr e))
           \<and> insert_requests w' = insert_requests w
           \<and> (candidates_file w' = candidates_file w \<or> candidates_file w' = Unparsable)"
proof (cases "load_candidates io (candidates_file w)")
  case (Inl m)
  then show ?thesis by (simp add: save_to_json_def save_to_json_try_def)
next
  case (Inr v)
  show ?thesis
  proof (cases v)
    case (PList cs)
    with Inr assms have "write_error io \<noteq> None \<or> dump_error io \<noteq> None" by simp
    with Inr PList show ?thesis
      by (auto simp: save_to_json_def save_to_json_try_def Let_def split: option.split)
  qed (use Inr in \<open>simp_all add: save_to_json_def save_to_json_try_def Let_def\<close>)
qed

lemma save_to_json_load_fails:
  "load_candidates io (candidates_file w) = Inl m \<Longrightarrow>
   save_to_json io cd e w = (Inr (Failure m), cd, w)"
  by (simp add: save_to_json_def save_to_json_try_def)

lemma save_to_json_not_list:
  assumes "load_candidates io (candidates_file w) = Inr v" and "\<forall>cs. v \<noteq> PList cs"
  shows "save_to_json io cd e w =
           (Inr (Failure (no_attribute v (U ''append''))),
            dict_setitem (dict_setitem cd (U ''timestamp'') (PStr (now io))) (U ''supabase_error'') (PStr e),
            w)"
  using assms by (cases v) (simp_all add: save_to_json_def save_to_json_try_def Let_def)

lemma save_to_json_open_fails:
  assumes "load_candidates io (candidates_file w) = Inr (PList cs)" and "write_error io = Some m"
  shows "save_to_json io cd e w =
           (Inr (Failure m),
            dict_setitem (dict_setitem cd (U ''timestamp'') (PStr (now io))) (U ''supabase_error'') (PStr e),
            w)"
  using assms by (simp add: save_to_json_def save_to_json_try_def Let_def)

lemma save_to_json_dump_fails:
  assumes "load_candidates io (candidates_file w) = Inr (PList cs)"
    and "write_error io = None" and "dump_error io = Some m"
  shows "save_to_json io cd e w =
           (Inr (Failure m),
            dict_setitem (dict_setitem cd (U ''timestamp'') (PStr (now io))) (U ''supabase_error'') (PStr e),
            w\<lparr>candidates_file := Unparsable\<rparr>)"
  using assms by (simp add: save_to_json_def save_to_json_try_def Let_def)

lemma stamped_frame:
  "k \<noteq> U ''timestamp'' \<Longrightarrow> k \<noteq> U ''supabase_error'' \<Longrightarrow>
   map_of (dict_setitem (dict_setitem cd (U ''timestamp'') t) (U ''supabase_error'') e) k = map_of cd k"
  by (simp add: map_of_setitem)

lemma save_candidate_remote:
  "remote_insert supabase (supabase_data cd) = Inr d \<Longrightarrow>
   save_candidate supabase io cd w
     = (Inr (Remote d), cd, w\<lparr>insert_requests := insert_requests w @ [supabase_data cd]\<rparr>)"
  by (simp add: save_candidate_def Let_def)

lemma save_candidate_local:
  "remote_insert supabase (supabase_data cd) = Inl e \<Longrightarrow>
   save_candidate supabase io cd w
     = save_to_json io cd e (w\<lparr>insert_requests := insert_requests w @ [supabase_data cd]\<rparr>)"
  by (simp add: save_candidate_def Let_def)

text \<open>
  C3, as the code has it. When the remote insert raises with message \<open>e\<close> (which may be
  empty), \<open>save_candidate\<close> does not raise. If the log is absent or holds a list and can be
  written, the log becomes the old entries followed by exactly one new entry: the record
  with \<open>timestamp\<close> set to the clock and \<open>supabase_error\<close> set to \<open>e\<close>, every other key as
  it was; the outcome is the local-fallback success carrying \<open>e\<close>. If the log cannot be
  read as a list or cannot be written, the outcome is the failure
  \<open>{"success": False, "error": m}\<close> and no entry is added; \<open>m\<close> is the message of the local
  failure, not \<open>e\<close>: the message of the exception that reading or decoding the log
  raised, of the AttributeError for \<open>.append\<close> when the log holds a JSON value that is not a
  list, of the exception that opening the log for writing raised, or of the one that
  writing it raised. Only the last leaves the log changed, unreadable.
\<close>

theorem save_candidate_fallback:
  assumes "remote_insert supabase (supabase_data cd) = Inl e"
  shows "case save_candidate supabase io cd w of (res, cd', w') \<Rightarrow>
           (\<exists>r. res = Inr r) \<and>
           (\<forall>cs. load_candidates io (candidates_file w) = Inr (PList cs)
                   \<and> write_error io = None \<and> dump_error io = None \<longrightarrow>
                 res = Inr (Fallback e) \<and>
                 candidates_file w' = Json (PList (cs @ [PDict cd'])) \<and>
                 map_of cd' (U ''supabase_error'') = Some (PStr e) \<and>
                 map_of cd' (U ''timestamp'') = Some (PStr (now io)) \<and>
                 (\<forall>k. k \<noteq> U ''timestamp'' \<and> k \<noteq> U ''supabase_error'' \<longrightarrow> map_of cd' k = map_of cd k)) \<and>
           (\<not> (\<exists>cs. load_candidates io (candidates_file w) = Inr (PList cs)
                   \<and> write_error io = None \<and> dump_error io = None) \<longrightarrow>
                 (\<exists>m. res = Inr (Failure m)) \<and>
                 (candidates_file w' = candidates_file w \<or> candidates_file w' = Unparsable)) \<and>
           (\<forall>m. load_candidates io (candidates_file w) = Inl m \<longrightarrow>
                 res = Inr (Failure m) \<and> cd' = cd \<and> candidates_file w' = candidates_file w) \<and>
           (\<forall>v. load_candidates io (candidates_file w) = Inr v \<and> (\<forall>cs. v \<noteq> PList cs) \<longrightarrow>
                 res = Inr (Failure (no_attribute v (U ''append''))) \<and>
                 candidates_file w' = candidates_file w) \<and>
           (\<forall>cs m. load_candidates io (candidates_file w) = Inr (PList cs)
                   \<and> write_error io = Some m \<longrightarrow>
                 res = Inr (Failure m) \<and> candidates_file w' = candidates_file w) \<and>
           (\<forall>cs m. load_candidates io (candidates_file w) = Inr (PList cs)
                   \<and> write_error io = None \<and> dump_error io = Some m \<longrightarrow>
                 res = Inr (Failure m) \<and> candidates_file w' = Unparsable)"
proof -
  let ?w1 = "w\<lparr>insert_requests := insert_requests w @ [supabase_data cd]\<rparr>"
  have local: "save_candidate supabase io cd w = save_to_json io cd e ?w1"
    by (rule save_candidate_local [OF assms])
  have same_file: "candidates_file ?w1 = candidates_file w" by simp
  show ?thesis
  proof (cases "load_candidates io (candidates_file w)")
    case (Inl m)
    then have "load_candidates io (candidates_file ?w1) = Inl m" by simp
    from save_to_json_load_fails [OF this, of cd e] Inl
    show ?thesis unfolding local by simp
  next
    case (Inr v)
    then have load: "load_candidates io (candidates_file ?w1) = Inr v" by simp
    show ?thesis
    proof (cases "\<exists>cs. v = PList cs")
      case False
      then have "\<forall>cs. v \<noteq> PList cs" by blast
      from save_to_json_not_list [OF load this, of cd e] Inr False
      show ?thesis unfolding local by auto
    next
      case True
      then obtain cs where v: "v = PList cs" by blast
      show ?thesis
      proof (cases "write_error io")
        case (Some m)
        from save_to_json_open_fails [OF load [unfolded v] Some, of cd e] Inr v Some
        show ?thesis unfolding local by simp
      next
        case None
        show ?thesis
        proof (cases "dump_error io")
          case (Some m)
          from save_to_json_dump_fails [OF load [unfolded v] None Some, of cd e] Inr v None Some
          show ?thesis unfolding local by simp
        next
          case du: None
          from save_to_json_appends [OF load [unfolded v] None du, of cd e] Inr v None du
          show ?thesis unfolding local by (simp add: map_of_setitem)
        qed
      qed
    qed
  qed
qed

theorem save_candidate_fallback_witness:
  "fst (save_candidate refusing_client quiet_io ada fresh_world)
     = Inr (Fallback (U ''connection refused'')) \<and>
   candidates_file (snd (snd (save_candidate refusing_client quiet_io ada fresh_world)))
     = Json (PList [PDict (fst (snd (save_candidate refusing_client quiet_io ada fresh_world)))]) \<and>
   map_of (fst (snd (save_candidate refusing_client quiet_io ada fresh_world))) (U ''name'')
     = Some (PStr (U ''Ada Lovelace'')) \<and>
   fst (save_candidate refusing_client broken_io ada fresh_world)
     = Inr (Failure (U ''Permission denied''))"
proof -
  have r: "remote_insert refusing_client (supabase_data ada) = Inl (U ''connection refused'')"
    by (simp add: remote_insert_def refusing_client_def)
  have l: "load_candidates quiet_io (candidates_file fresh_world) = Inr (PList [])
           \<and> write_error quiet_io = None \<and> dump_error quiet_io = None"
    by (simp add: load_candidates_def fresh_world_def quiet_io_def)
  have b: "load_candidates broken_io (candidates_file fresh_world) = Inr (PList [])
           \<and> write_error broken_io = Some (U ''Permission denied'')"
    by (simp add: load_candidates_def fresh_world_def broken_io_def)
  have n: "U ''name'' \<noteq> U ''timestamp'' \<and> U ''name'' \<noteq> U ''supabase_error''"
    by simp
  have a: "map_of ada (U ''name'') = Some (PStr (U ''Ada Lovelace''))"
    by (simp add: ada_def)
  obtain res cd' w' where eq: "save_candidate refusing_client quiet_io ada fresh_world = (res, cd', w')"
    by (rule prod_cases3)
  obtain res2 cd2 w2 where eq2: "save_candidate refusing_client broken_io ada fresh_world = (res2, cd2, w2)"
    by (rule prod_cases3)
  from save_candidate_fallback [OF r, of quiet_io fresh_world] l n a
  have "res = Inr (Fallback (U ''connection refused'')) \<and> candidates_file w' = Json (PList [PDict cd'])
        \<and> map_of cd' (U ''name'') = Some (PStr (U ''Ada Lovelace''))"
    unfolding eq by auto
  moreover from save_candidate_fallback [OF r, of broken_io fresh_world] b
  have "res2 = Inr (Failure (U ''Permission denied''))"
    unfolding eq2 by auto
  ultimately show ?thesis unfolding eq eq2 by auto
qed

text \<open>
  The claim as written promises a non-empty error string: an exception without a message
  leaves the empty string in the log entry and in the outcome.
\<close>

theorem save_candidate_empty_error_counterexample:
  "remote_insert silent_client (supabase_data ada) = Inl [] \<and>
   fst (save_candidate silent_client quiet_io ada fresh_world) = Inr (Fallback []) \<and>
   candidates_file (snd (snd (save_candidate silent_client quiet_io ada fresh_world)))
     = Json (PList [PDict (ada @ [(U ''timestamp'', PStr (U ''2024-05-01T10:00:00'')),
                                  (U ''supabase_error'', PStr [])])])"
  by code_simp

text \<open>
  C8, as the code has it. On the remote path the caller's record is returned as it was.
  On the local path \<open>save_to_json\<close> writes into the caller's record: after a
  local-fallback success it is the record with \<open>timestamp\<close> and \<open>supabase_error\<close> set. On
  every path all other keys keep their values.
\<close>

theorem save_candidate_record_frame:
  "case save_candidate supabase io cd w of (res, cd', w') \<Rightarrow>
     (\<forall>d. res = Inr (Remote d) \<longrightarrow> cd' = cd) \<and>
     (\<forall>e. res = Inr (Fallback e) \<longrightarrow>
        cd' = dict_setitem (dict_setitem cd (U ''timestamp'') (PStr (now io)))
                (U ''supabase_error'') (PStr e)) \<and>
     (\<forall>k. k \<noteq> U ''timestamp'' \<and> k \<noteq> U ''supabase_error'' \<longrightarrow> map_of cd' k = map_of cd k)"
proof (cases "remote_insert supabase (supabase_data cd)")
  case (Inr d)
  show ?thesis unfolding save_candidate_remote [OF Inr] by simp
next
  case (Inl e)
  let ?w1 = "w\<lparr>insert_requests := insert_requests w @ [supabase_data cd]\<rparr>"
  show ?thesis
  proof (cases "\<exists>cs. load_candidates io (candidates_file ?w1) = Inr (PList cs)
                   \<and> write_error io = None \<and> dump_error io = None")
    case True
    then obtain cs where "load_candidates io (candidates_file ?w1) = Inr (PList cs)"
      and "write_error io = None" and "dump_error io = None" by blast
    from save_to_json_appends [OF this, of cd e]
    show ?thesis unfolding save_candidate_local [OF Inl] by (simp add: map_of_setitem)
  next
    case False
    from save_to_json_fails [OF this, of cd e]
    show ?thesis unfolding save_candidate_local [OF Inl] by (auto simp: map_of_setitem)
  qed
qed

theorem save_candidate_record_frame_witness:
  "fst (snd (save_candidate accepting_client quiet_io ada fresh_world)) = ada \<and>
   fst (snd (save_candidate refusing_client quiet_io ada fresh_world))
     = dict_setitem (dict_setitem ada (U ''timestamp'') (PStr (now quiet_io)))
         (U ''supabase_error'') (PStr (U ''connection refused'')) \<and>
   map_of (fst (snd (save_candidate refusing_client quiet_io ada fresh_world))) (U ''email'')
     = map_of ada (U ''email'')"
proof -
  have a: "fst (save_candidate accepting_client quiet_io ada fresh_world)
             = Inr (Remote (PDict (supabase_data ada)))"
    by (simp add: save_candidate_def remote_insert_def accepting_client_def Let_def)
  have r: "fst (save_candidate refusing_client quiet_io ada fresh_world)
             = Inr (Fallback (U ''connection refused''))"
    by (simp add: save_candidate_def remote_insert_def refusing_client_def Let_def
        save_to_json_def save_to_json_try_def load_candidates_def fresh_world_def quiet_io_def)
  have n: "U ''email'' \<noteq> U ''timestamp'' \<and> U ''email'' \<noteq> U ''supabase_error''"
    by simp
  obtain res cd' w' where eq: "save_candidate accepting_client quiet_io ada fresh_world = (res, cd', w')"
    by (rule prod_cases3)
  obtain res2 cd2 w2 where eq2: "save_candidate refusing_client quiet_io ada fresh_world = (res2, cd2, w2)"
    by (rule prod_cases3)
  from save_candidate_record_frame [where supabase = accepting_client and io = quiet_io and cd = ada and w = fresh_world] a
  have 1: "cd' = ada" unfolding eq by simp
  from save_candidate_record_frame [where supabase = refusing_client and io = quiet_io and cd = ada and w = fresh_world] r n
  have 2: "cd2 = dict_setitem (dict_setitem ada (U ''timestamp'') (PStr (now quiet_io)))
                   (U ''supabase_error'') (PStr (U ''connection refused''))
           \<and> map_of cd2 (U ''email'') = map_of ada (U ''email'')"
    unfolding eq2 by auto
  from 1 2 show ?thesis unfolding eq eq2 fst_conv snd_conv by blast
qed

text \<open>
  The claim as written fails on the local path: the caller's record comes back with two
  more keys.
\<close>

theorem save_candidate_mutates_counterexample:
  "fst (snd (save_candidate refusing_client quiet_io ada fresh_world))
     = ada @ [(U ''timestamp'', PStr (U ''2024-05-01T10:00:00'')),
              (U ''supabase_error'', PStr (U ''connection refused''))] \<and>
   fst (snd (save_candidate refusing_client quiet_io ada fresh_world)) \<noteq> ada"
  by code_simp

text \<open>
  C2 on the code. Without \<open>SUPABASE_URL\<close> and \<open>SUPABASE_KEY\<close> the constructor hands
  \<open>None\<close> to \<open>create_client\<close> with no guard and no \<open>try\<close>: whatever the factory raises leaves
  the constructor and the start of the session, before any save can take the local path.
\<close>

theorem missing_credentials_raise:
  "SupabaseClient_init no_env (strict_create_client accepting_client)
     = Inl (U ''supabase_url is required'') \<and>
   start_session no_env (strict_create_client accepting_client) None
     = Inl (U ''supabase_url is required'')"
  by (simp add: start_session_def SupabaseClient_init_def strict_create_client_def no_env_def)

section \<open>Video-responses form: properties\<close>

lemma submission_record_no_generated_questions:
  "map_of (submission_record st vr) (U ''generated_questions'') = None"
  by (simp add: submission_record_def Let_def dict_contains_def map_of_delitem)

lemma supabase_data_generated_questions:
  "dict_get (supabase_data (submission_record st vr)) (U ''generated_questions'') = PNone"
proof -
  have projected:
    "dict_get (supabase_data cd) (U ''generated_questions'') = dict_get cd (U ''generated_questions'')"
    for cd
    by (simp add: supabase_data_def dict_get_def)
  have "dict_get (submission_record st vr) (U ''generated_questions'') = PNone"
    unfolding dict_get_def submission_record_no_generated_questions by simp
  with projected [of "submission_record st vr"] show ?thesis by simp
qed

text \<open>
  C1 on the code. One question, one valid link, the remote insert accepted: the session
  reaches step 4 and the record handed to the save holds the reply text under
  \<open>generated_questions_full_text\<close> and the link under \<open>video_responses\<close>, but the row sent
  to the remote store has \<open>None\<close> for \<open>generated_questions\<close> and for \<open>loom_video_url\<close>.
\<close>

theorem remote_row_lacks_questions_and_links:
  "(case generate_questions any_url accepting_client quiet_io ada_form ada_session fresh_world of
      Inl e \<Rightarrow> False
    | Inr (st', w', out) \<Rightarrow>
        step st' = 4 \<and>
        dict_get (candidate_data st') (U ''generated_questions_full_text'')
          = PStr (U ''**Question 1: Why?**'') \<and>
        (case dict_get (candidate_data st') (U ''video_responses'') of
           PDict vr \<Rightarrow> (case dict_get vr (U ''question_1'') of
                          PDict r \<Rightarrow> dict_get r (U ''loom_url'') = PStr (U ''https://www.loom.com/share/abc123'')
                        | _ \<Rightarrow> False)
         | _ \<Rightarrow> False) \<and>
        insert_requests w' =
          [[(U ''name'', PStr (U ''Ada Lovelace'')),
            (U ''email'', PStr (U ''ada@example.com'')),
            (U ''phone'', PStr []),
            (U ''experience'', PInt 5),
            (U ''position'', PStr (U ''Backend Engineer'')),
            (U ''location'', PStr []),
            (U ''programming_languages'', PList [PStr (U ''Python'')]),
            (U ''frameworks'', PList []),
            (U ''databases'', PList []),
            (U ''tools'', PList []),
            (U ''cloud_platforms'', PList []),
            (U ''other_skills'', PNone),
            (U ''generated_questions'', PNone),
            (U ''loom_video_url'', PNone),
            (U ''status'', PStr (U ''submitted''))]])"
  by code_simp

lemma save_candidate_hybrid_cases:
  "\<exists>saved n cd' w'.
     save_candidate_hybrid supabase io cd w = (Inr (saved, n), cd', w') \<and>
     insert_requests w' = insert_requests w @ [supabase_data cd] \<and>
     (saved \<longleftrightarrow>
        (\<exists>d. remote_insert supabase (supabase_data cd) = Inr d) \<or>
        (\<exists>cs. load_candidates io (candidates_file w) = Inr (PList cs)
              \<and> write_error io = None \<and> dump_error io = None))"
proof (cases "remote_insert supabase (supabase_data cd)")
  case (Inr d)
  show ?thesis
    unfolding save_candidate_hybrid_def save_candidate_remote [OF Inr] using Inr by auto
next
  case (Inl e)
  let ?w1 = "w\<lparr>insert_requests := insert_requests w @ [supabase_data cd]\<rparr>"
  show ?thesis
  proof (cases "\<exists>cs. load_candidates io (candidates_file ?w1) = Inr (PList cs)
                   \<and> write_error io = None \<and> dump_error io = None")
    case True
    then obtain cs where "load_candidates io (candidates_file ?w1) = Inr (PList cs)"
      and "write_error io = None" and "dump_error io = None" by blast
    from save_to_json_appends [OF this, of cd e] True
    show ?thesis
      unfolding save_candidate_hybrid_def save_candidate_local [OF Inl] by auto
  next
    case False
    from save_to_json_fails [OF this, of cd e]
    obtain m cd' w' where
      "save_to_json io cd e ?w1 = (Inr (Failure m), cd', w')"
      "insert_requests w' = insert_requests ?w1" by blast
    with False Inl show ?thesis
      unfolding save_candidate_hybrid_def save_candidate_local [OF Inl] by auto
  qed
qed

lemma submission_record_shared:
  "submission_record
     (st\<lparr>video_responses := vr, candidate_data := share_video_responses (candidate_data st) vr\<rparr>) vr
   = submission_record (st\<lparr>video_responses := vr\<rparr>) vr"
  by (simp add: submission_record_def share_video_responses_def dict_update_def dict_setitem_def)

lemma collect_link_keys:
  assumes "distinct (map fst vr)" and "fst ` set vr \<subseteq> question_key ` {1..N}" and "i < N"
  shows "distinct (map fst (fst (collect_link ok f blocks (vr, out) i))) \<and>
         fst ` set (fst (collect_link ok f blocks (vr, out) i)) \<subseteq> question_key ` {1..N}"
proof -
  let ?k = "question_key (i + 1)"
  have k: "?k \<in> question_key ` {1..N}" using assms(3) by simp
  have set: "distinct (map fst (dict_setitem vr ?k v)) \<and>
             fst ` set (dict_setitem vr ?k v) \<subseteq> question_key ` {1..N}" for v
    using assms(1,2) k by (simp add: dict_setitem_def distinct_update dom_update)
  have del: "distinct (map fst (dict_delitem vr ?k)) \<and>
             fst ` set (dict_delitem vr ?k) \<subseteq> question_key ` {1..N}"
    using assms(1,2) dom_delete_subset [of ?k vr]
    by (auto simp: dict_delitem_def distinct_delete)
  show ?thesis
    using set del assms(1,2) by (simp add: collect_link_def Let_def)
qed

lemma collect_links_keys_aux:
  assumes "distinct (map fst (fst acc))" and "fst ` set (fst acc) \<subseteq> question_key ` {1..N}"
    and "\<forall>i\<in>set is. i < N"
  shows "distinct (map fst (fst (foldl (collect_link ok f blocks) acc is))) \<and>
         fst ` set (fst (foldl (collect_link ok f blocks) acc is)) \<subseteq> question_key ` {1..N}"
  using assms
proof (induction "is" arbitrary: acc)
  case Nil
  then show ?case by simp
next
  case (Cons i "is")
  obtain vr out where acc: "acc = (vr, out)" by (cases acc)
  from Cons.prems have "i < N" by simp
  from collect_link_keys [OF _ _ this, of vr ok f blocks out] Cons.prems(1,2)
  have "distinct (map fst (fst (collect_link ok f blocks acc i))) \<and>
        fst ` set (fst (collect_link ok f blocks acc i)) \<subseteq> question_key ` {1..N}"
    unfolding acc by simp
  with Cons.IH [of "collect_link ok f blocks acc i"] Cons.prems(3)
  show ?case by simp
qed

lemma collect_links_count:
  assumes "distinct (map fst vr0)" and "fst ` set vr0 \<subseteq> question_key ` {1..length blocks}"
  shows "length (fst (collect_links ok f blocks vr0)) \<le> length blocks"
proof -
  let ?vr = "fst (collect_links ok f blocks vr0)"
  have inv: "distinct (map fst ?vr) \<and> fst ` set ?vr \<subseteq> question_key ` {1..length blocks}"
    unfolding collect_links_def
    by (rule collect_links_keys_aux) (use assms in simp_all)
  then have "length ?vr = card (fst ` set ?vr)"
    by (metis distinct_card length_map set_map)
  also have "\<dots> \<le> card (question_key ` {1..length blocks})"
    using inv by (intro card_mono) simp_all
  also have "\<dots> \<le> card {1..length blocks}"
    by (rule card_image_le) simp
  finally show ?thesis by simp
qed

text \<open>
  C4, as the code has it. On a submit, with \<open>vr\<close> the video responses after the inputs of
  this run were collected and \<open>N\<close> the number of question blocks: while \<open>vr\<close> has fewer
  than \<open>N\<close> entries nothing is saved, the step stays and the aggregate error is shown (the
  record changes only where it shares the video responses);
  otherwise the save is invoked exactly once (one insert request, for the projection of
  the submitted record) and the step becomes 4 exactly when that save succeeded, remotely
  or in the local log; when both fail the step stays. With no question block the save is
  reached with zero links. Responses are keyed by ordinals of the questions, so \<open>vr\<close> never
  has more than \<open>N\<close> entries: reaching \<open>N\<close> means equal to \<open>N\<close>.
\<close>

theorem submit_gate:
  assumes "submitted f"
    and "collect_links validators_url f (question_blocks (generated_questions st))
           (video_responses st) = (vr, out)"
  shows
    "(length vr < length (question_blocks (generated_questions st)) \<longrightarrow>
        generate_questions validators_url supabase io f st w
          = Inr (st\<lparr>video_responses := vr,
                    candidate_data := share_video_responses (candidate_data st) vr\<rparr>,
                 w, out @ [incomplete_notice])) \<and>
     (\<not> length vr < length (question_blocks (generated_questions st)) \<longrightarrow>
        (\<exists>st' w' n.
           generate_questions validators_url supabase io f st w = Inr (st', w', out @ [n]) \<and>
           insert_requests w'
             = insert_requests w @ [supabase_data (submission_record (st\<lparr>video_responses := vr\<rparr>) vr)] \<and>
           step st' =
             (if (\<exists>d. remote_insert supabase
                         (supabase_data (submission_record (st\<lparr>video_responses := vr\<rparr>) vr)) = Inr d) \<or>
                 (\<exists>cs. load_candidates io (candidates_file w) = Inr (PList cs)
                       \<and> write_error io = None \<and> dump_error io = None)
              then 4 else step st))) \<and>
     (question_blocks (generated_questions st) = [] \<longrightarrow>
        \<not> length vr < length (question_blocks (generated_questions st))) \<and>
     (distinct (map fst (video_responses st)) \<and>
      fst ` set (video_responses st)
        \<subseteq> question_key ` {1..length (question_blocks (generated_questions st))} \<longrightarrow>
        length vr \<le> length (question_blocks (generated_questions st)))"
proof (intro conjI impI)
  assume "length vr < length (question_blocks (generated_questions st))"
  then show "generate_questions validators_url supabase io f st w
               = Inr (st\<lparr>video_responses := vr,
                         candidate_data := share_video_responses (candidate_data st) vr\<rparr>,
                      w, out @ [incomplete_notice])"
    using assms by (simp add: generate_questions_def Let_def)
next
  assume full: "\<not> length vr < length (question_blocks (generated_questions st))"
  let ?rec = "submission_record (st\<lparr>video_responses := vr\<rparr>) vr"
  from save_candidate_hybrid_cases [of supabase io ?rec w]
  obtain saved n cd' w' where
    h: "save_candidate_hybrid supabase io ?rec w = (Inr (saved, n), cd', w')"
    and req: "insert_requests w' = insert_requests w @ [supabase_data ?rec]"
    and saved: "saved \<longleftrightarrow>
        (\<exists>d. remote_insert supabase (supabase_data ?rec) = Inr d) \<or>
        (\<exists>cs. load_candidates io (candidates_file w) = Inr (PList cs)
              \<and> write_error io = None \<and> dump_error io = None)"
    by blast
  show "\<exists>st' w' n.
           generate_questions validators_url supabase io f st w = Inr (st', w', out @ [n]) \<and>
           insert_requests w' = insert_requests w @ [supabase_data ?rec] \<and>
           step st' =
             (if (\<exists>d. remote_insert supabase (supabase_data ?rec) = Inr d) \<or>
                 (\<exists>cs. load_candidates io (candidates_file w) = Inr (PList cs)
                       \<and> write_error io = None \<and> dump_error io = None)
              then 4 else step st)"
  proof (cases saved)
    case True
    have "generate_questions validators_url supabase io f st w
            = Inr (st\<lparr>video_responses := vr, candidate_data := cd', step := 4\<rparr>, w', out @ [n])"
      using assms full h True
      by (simp add: generate_questions_def Let_def submission_record_shared)
    with req saved True show ?thesis by auto
  next
    case False
    have "generate_questions validators_url supabase io f st w
            = Inr (st\<lparr>video_responses := vr, candidate_data := cd'\<rparr>, w', out @ [n])"
      using assms full h False
      by (simp add: generate_questions_def Let_def submission_record_shared)
    with req saved False show ?thesis by auto
  qed
next
  assume "question_blocks (generated_questions st) = []"
  then show "\<not> length vr < length (question_blocks (generated_questions st))" by simp
next
  assume "distinct (map fst (video_responses st)) \<and>
      fst ` set (video_responses st)
        \<subseteq> question_key ` {1..length (question_blocks (generated_questions st))}"
  then have "length (fst (collect_links validators_url f (question_blocks (generated_questions st))
                      (video_responses st)))
               \<le> length (question_blocks (generated_questions st))"
    by (intro collect_links_count) simp_all
  then show "length vr \<le> length (question_blocks (generated_questions st))"
    unfolding assms(2) by simp
qed

theorem submit_gate_witness:
  "(case generate_questions any_url accepting_client quiet_io ada_form ada_session fresh_world of
      Inl e \<Rightarrow> False
    | Inr (st', w', out) \<Rightarrow> step st' = 4 \<and> length (insert_requests w') = 1) \<and>
   (case generate_questions any_url accepting_client quiet_io empty_form ada_session fresh_world of
      Inl e \<Rightarrow> False
    | Inr (st', w', out) \<Rightarrow> step st' = 3 \<and> w' = fresh_world \<and> out = [incomplete_notice]) \<and>
   (case generate_questions any_url refusing_client broken_io empty_form no_question_session fresh_world of
      Inl e \<Rightarrow> False
    | Inr (st', w', out) \<Rightarrow> step st' = 3 \<and> length (insert_requests w') = 1)"
proof (intro conjI)
  let ?N = "length (question_blocks (generated_questions ada_session))"
  obtain vr out where c:
    "collect_links any_url ada_form (question_blocks (generated_questions ada_session))
       (video_responses ada_session) = (vr, out)"
    by (cases "collect_links any_url ada_form (question_blocks (generated_questions ada_session))
                 (video_responses ada_session)")
  have s: "submitted ada_form" by (simp add: ada_form_def)
  have keys: "distinct (map fst (video_responses ada_session)) \<and>
              fst ` set (video_responses ada_session) \<subseteq> question_key ` {1..?N}"
    by (simp add: ada_session_def)
  have n: "?N = 1" by code_simp
  have "length (fst (collect_links any_url ada_form (question_blocks (generated_questions ada_session))
                  (video_responses ada_session))) = 1"
    by code_simp
  then have full: "\<not> length vr < ?N" unfolding c n by simp
  have remote: "\<exists>d. remote_insert accepting_client
                      (supabase_data (submission_record (ada_session\<lparr>video_responses := vr\<rparr>) vr)) = Inr d"
    by (simp add: remote_insert_def accepting_client_def)
  from submit_gate [OF s c, of accepting_client quiet_io fresh_world] full remote keys
  obtain st' w' m where
    "generate_questions any_url accepting_client quiet_io ada_form ada_session fresh_world
       = Inr (st', w', out @ [m])"
    "insert_requests w' = insert_requests fresh_world
        @ [supabase_data (submission_record (ada_session\<lparr>video_responses := vr\<rparr>) vr)]"
    "step st' = 4" "length vr \<le> ?N"
    by auto
  then show "case generate_questions any_url accepting_client quiet_io ada_form ada_session fresh_world of
      Inl e \<Rightarrow> False
    | Inr (st', w', out) \<Rightarrow> step st' = 4 \<and> length (insert_requests w') = 1"
    by (simp add: fresh_world_def)
next
  let ?N = "length (question_blocks (generated_questions ada_session))"
  have s: "submitted empty_form" by (simp add: empty_form_def)
  have c: "collect_links any_url empty_form (question_blocks (generated_questions ada_session))
             (video_responses ada_session) = ([], [])"
    by code_simp
  have n: "?N = 1" by code_simp
  have short: "length ([] :: pydict) < ?N" unfolding n by simp
  from submit_gate [OF s c, of accepting_client quiet_io fresh_world] short
  have "generate_questions any_url accepting_client quiet_io empty_form ada_session fresh_world
          = Inr (ada_session\<lparr>video_responses := [],
                   candidate_data := share_video_responses (candidate_data ada_session) []\<rparr>,
                 fresh_world, [] @ [incomplete_notice])"
    by blast
  then show "case generate_questions any_url accepting_client quiet_io empty_form ada_session fresh_world of
      Inl e \<Rightarrow> False
    | Inr (st', w', out) \<Rightarrow> step st' = 3 \<and> w' = fresh_world \<and> out = [incomplete_notice]"
    by (simp add: ada_session_def)
next
  let ?N = "length (question_blocks (generated_questions no_question_session))"
  have s: "submitted empty_form" by (simp add: empty_form_def)
  have c: "collect_links any_url empty_form (question_blocks (generated_questions no_question_session))
             (video_responses no_question_session) = ([], [])"
    by code_simp
  have n: "question_blocks (generated_questions no_question_session) = []" by code_simp
  have remote: "\<not> (\<exists>d. remote_insert refusing_client
                      (supabase_data (submission_record (no_question_session\<lparr>video_responses := []\<rparr>) [])) = Inr d)"
    by (simp add: remote_insert_def refusing_client_def)
  have local: "\<not> (\<exists>cs. load_candidates broken_io (candidates_file fresh_world) = Inr (PList cs)
                       \<and> write_error broken_io = None \<and> dump_error broken_io = None)"
    by (simp add: broken_io_def)
  from submit_gate [OF s c, of refusing_client broken_io fresh_world] n remote local
  obtain st' w' m where
    "generate_questions any_url refusing_client broken_io empty_form no_question_session fresh_world
       = Inr (st', w', [] @ [m])"
    "insert_requests w' = insert_requests fresh_world
        @ [supabase_data (submission_record (no_question_session\<lparr>video_responses := []\<rparr>) [])]"
    "step st' = step no_question_session"
    by auto
  then show "case generate_questions any_url refusing_client broken_io empty_form no_question_session fresh_world of
      Inl e \<Rightarrow> False
    | Inr (st', w', out) \<Rightarrow> step st' = 3 \<and> length (insert_requests w') = 1"
    by (simp add: fresh_world_def no_question_session_def)
qed

text \<open>
  The claim as written makes the transition depend on the count alone: with one question
  and one valid link, a save that fails remotely and locally leaves the session in step 3.
\<close>

theorem submit_save_failure_counterexample:
  "length (question_blocks (generated_questions ada_session)) = 1 \<and>
   (case generate_questions any_url refusing_client broken_io ada_form ada_session fresh_world of
      Inl e \<Rightarrow> False
    | Inr (st', w', out) \<Rightarrow>
        length (video_responses st') = 1 \<and> step st' = 3 \<and> length (insert_requests w') = 1)"
  by code_simp

end
